theory Spec2Isabelle
  imports Main
begin

section \<open>Name discovery for auto-import: \<open>rope/contrib/autoimport/parse.py\<close>\<close>

text \<open>
  The module finds the importable names of a package. It reads files, parses them with
  \<open>ast.parse\<close>, walks the top-level statements, and for compiled modules imports the
  module and inspects it. The embedding keeps the functions of \<open>parse.py\<close> under their
  own names. What lies outside the module is data of the model: the file system is a
  tree, a source file is the outcome of parsing it, a runtime module is the outcome of
  importing it, and every \<open>open\<close>, \<open>print\<close> and \<open>import_module\<close> is an event of a
  trace returned next to the result. A raised exception is \<open>Inl\<close> of the result.
\<close>

subsection \<open>Syntax trees (the part of \<open>ast\<close> the walk looks at)\<close>

text \<open>
  A constant is a string or anything else; for anything else the model keeps the text
  that \<open>str\<close> gives for the value, which is all \<open>parse_all\<close> reads of it.
\<close>

datatype const_value = CStr string | CNonStr string

fun py_str :: "const_value \<Rightarrow> string" where
  "py_str (CStr s) = s"
| "py_str (CNonStr s) = s"

datatype expr =
    Name string
  | Constant const_value
  | ListExpr "expr list"
  | TupleExpr "expr list"
  | Attribute expr string
  | Subscript expr expr
  | Starred expr
  | OtherExpr

text \<open>
  \<open>Assign targets value\<close> is \<open>ast.Assign\<close>. \<open>ast.AsyncFunctionDef\<close>, \<open>ast.AnnAssign\<close>
  and \<open>ast.AugAssign\<close> are classes of their own, not subclasses of the three the walk
  tests for with \<open>isinstance\<close>.
\<close>

datatype stmt =
    Assign "expr list" expr
  | FunctionDef string
  | ClassDef string
  | AsyncFunctionDef string
  | AnnAssign expr
  | AugAssign expr
  | OtherStmt

subsection \<open>The file system and the trace\<close>

text \<open>
  \<open>ast.parse(file.read())\<close> either raises \<open>SyntaxError\<close> with a message or gives a
  module, of which only the top-level statements are read.
\<close>

datatype source = SyntaxError string | Module "stmt list"

text \<open>
  A node is a file that can be read, a file that \<open>open\<close> refuses, or a directory
  whose entries are listed in the order in which the operating system enumerates them.
\<close>

datatype fsnode = File source | NoPermission | Dir "(string \<times> fsnode) list"

type_synonym path = "string list"

datatype error = OSError | OtherException

datatype event = Open path | Print string | Import string

text \<open>The 4-tuple \<open>Name\<close> of \<open>defs.py\<close>; the last component is \<open>package_source.value\<close>.\<close>

type_synonym 's Name = "string \<times> string \<times> string \<times> 's"

type_synonym 'a outcome = "event list \<times> (error + 'a)"

fun lookup :: "fsnode \<Rightarrow> path \<Rightarrow> fsnode option" where
  "lookup node [] = Some node"
| "lookup (Dir entries) (c # cs) =
     (case map_of entries c of None \<Rightarrow> None | Some child \<Rightarrow> lookup child cs)"
| "lookup (File src) (c # cs) = None"
| "lookup NoPermission (c # cs) = None"

definition is_dir :: "fsnode \<Rightarrow> path \<Rightarrow> bool" where
  "is_dir fs p = (case lookup fs p of Some (Dir entries) \<Rightarrow> True | _ \<Rightarrow> False)"

definition exists_path :: "fsnode \<Rightarrow> path \<Rightarrow> bool" where
  "exists_path fs p = (lookup fs p \<noteq> None)"

text \<open>\<open>open(module, mode="rb")\<close> followed by \<open>ast.parse(file.read())\<close>: \<open>None\<close> is \<open>OSError\<close>.\<close>

definition open_file :: "fsnode \<Rightarrow> path \<Rightarrow> source option" where
  "open_file fs p = (case lookup fs p of Some (File src) \<Rightarrow> Some src | _ \<Rightarrow> None)"

subsection \<open>Strings and paths\<close>

definition startswith :: "string \<Rightarrow> string \<Rightarrow> bool" where
  "startswith s p = (take (length p) s = p)"

definition endswith :: "string \<Rightarrow> string \<Rightarrow> bool" where
  "endswith s p = (drop (length s - length p) s = p)"

fun rfind_from :: "string \<Rightarrow> char \<Rightarrow> nat \<Rightarrow> nat option \<Rightarrow> nat option" where
  "rfind_from [] c i found = found"
| "rfind_from (x # xs) c i found = rfind_from xs c (Suc i) (if x = c then Some i else found)"

definition rfind :: "string \<Rightarrow> char \<Rightarrow> nat option" where
  "rfind s c = rfind_from s c 0 None"

definition path_name :: "path \<Rightarrow> string" where
  "path_name p = (if p = [] then [] else last p)"

text \<open>
  \<open>PurePath.suffix\<close> and \<open>PurePath.stem\<close>: the last dot of the name splits it, unless it
  is the first or the last character.
\<close>

definition suffix_of :: "path \<Rightarrow> string" where
  "suffix_of p =
     (let name = path_name p in
      case rfind name (CHR ''.'') of
        None \<Rightarrow> []
      | Some i \<Rightarrow> if 0 < i \<and> i < length name - 1 then drop i name else [])"

definition stem :: "path \<Rightarrow> string" where
  "stem p =
     (let name = path_name p in
      case rfind name (CHR ''.'') of
        None \<Rightarrow> name
      | Some i \<Rightarrow> if 0 < i \<and> i < length name - 1 then take i name else name)"

text \<open>
  \<open>modpath.glob("*.py")\<close>: the entries directly in the directory whose name ends in
  \<open>.py\<close>, files and directories alike, in enumeration order.
\<close>

definition glob_py :: "fsnode \<Rightarrow> path \<Rightarrow> path list" where
  "glob_py fs modpath =
     (case lookup fs modpath of
        Some (Dir entries) \<Rightarrow>
          map (\<lambda>entry. modpath @ [fst entry])
            (filter (\<lambda>entry. endswith (fst entry) ''.py'') entries)
      | _ \<Rightarrow> [])"

subsection \<open>\<open>parse_all\<close>\<close>

text \<open>
  The loop over \<open>node.value.elts\<close>. \<open>None\<close> is the \<open>AssertionError\<close> of
  \<open>assert isinstance(item, ast.Constant)\<close>.
\<close>

fun parse_all_items ::
  "expr list \<Rightarrow> string \<Rightarrow> string \<Rightarrow> 's \<Rightarrow> 's Name list \<Rightarrow> 's Name list option" where
  "parse_all_items [] modname package package_source all_results = Some all_results"
| "parse_all_items (item # items) modname package package_source all_results =
     (case item of
        Constant v \<Rightarrow>
          parse_all_items items modname package package_source
            (all_results @ [(py_str v, modname, package, package_source)])
      | _ \<Rightarrow> None)"

text \<open>
  \<open>parse_all\<close> takes the value of the assignment node. \<open>None\<close> is the \<open>AssertionError\<close>
  of \<open>assert isinstance(node.value, ast.List)\<close> or of the loop.
\<close>

fun parse_all :: "expr \<Rightarrow> string \<Rightarrow> string \<Rightarrow> 's \<Rightarrow> 's Name list option" where
  "parse_all (ListExpr elts) modname package package_source =
     parse_all_items elts modname package package_source []"
| "parse_all _ modname package package_source = None"

subsection \<open>\<open>get_names_from_file\<close>\<close>

text \<open>A loop body either returns from the function or goes on with its local state.\<close>

datatype ('r, 'c) flow = Return 'r | Continue 'c

text \<open>
  The loop over \<open>node.targets\<close>. The \<open>try\<close> block catches the \<open>AssertionError\<close> of a
  target that is not a \<open>Name\<close> and the one raised inside \<open>parse_all\<close>, whose \<open>return\<close>
  then does not happen; in both cases nothing is appended for this target.
\<close>

fun assign_targets ::
  "expr list \<Rightarrow> expr \<Rightarrow> string \<Rightarrow> string \<Rightarrow> 's \<Rightarrow> string list \<Rightarrow>
     ('s Name list, string list) flow" where
  "assign_targets [] val modname package package_source node_names = Continue node_names"
| "assign_targets (target # targets) val modname package package_source node_names =
     (case target of
        Name ident \<Rightarrow>
          if ident = ''__all__'' then
            (case parse_all val modname package package_source of
               Some all_results \<Rightarrow> Return all_results
             | None \<Rightarrow> assign_targets targets val modname package package_source node_names)
          else assign_targets targets val modname package package_source (node_names @ [ident])
      | _ \<Rightarrow> assign_targets targets val modname package package_source node_names)"

text \<open>The loop \<open>for node_name in node_names\<close>.\<close>

fun append_names ::
  "string list \<Rightarrow> string \<Rightarrow> string \<Rightarrow> 's \<Rightarrow> bool \<Rightarrow> 's Name list \<Rightarrow> 's Name list" where
  "append_names [] modname package package_source underlined results = results"
| "append_names (node_name # node_names) modname package package_source underlined results =
     (if underlined \<or> \<not> startswith node_name ''_''
      then append_names node_names modname package package_source underlined
             (results @ [(node_name, modname, package, package_source)])
      else append_names node_names modname package package_source underlined results)"

text \<open>The loop \<open>for node in ast.iter_child_nodes(root_node)\<close>.\<close>

fun walk ::
  "stmt list \<Rightarrow> string \<Rightarrow> string \<Rightarrow> 's \<Rightarrow> bool \<Rightarrow> 's Name list \<Rightarrow>
     ('s Name list, 's Name list) flow" where
  "walk [] modname package package_source underlined results = Continue results"
| "walk (node # nodes) modname package package_source underlined results =
     (case node of
        Assign targets val \<Rightarrow>
          (case assign_targets targets val modname package package_source [] of
             Return all_results \<Rightarrow> Return all_results
           | Continue node_names \<Rightarrow>
               walk nodes modname package package_source underlined
                 (append_names node_names modname package package_source underlined results))
      | FunctionDef name \<Rightarrow>
          walk nodes modname package package_source underlined
            (append_names [name] modname package package_source underlined results)
      | ClassDef name \<Rightarrow>
          walk nodes modname package package_source underlined
            (append_names [name] modname package package_source underlined results)
      | _ \<Rightarrow>
          walk nodes modname package package_source underlined
            (append_names [] modname package package_source underlined results))"

definition get_names_from_file ::
  "fsnode \<Rightarrow> path \<Rightarrow> string \<Rightarrow> string \<Rightarrow> 's \<Rightarrow> bool \<Rightarrow> bool \<Rightarrow> 's Name list outcome" where
  "get_names_from_file fs module modname package package_source only_all underlined =
     (case open_file fs module of
        None \<Rightarrow> ([Open module], Inl OSError)
      | Some (SyntaxError msg) \<Rightarrow> ([Open module, Print msg], Inr [])
      | Some (Module body) \<Rightarrow>
          (case walk body modname package package_source underlined [] of
             Return all_results \<Rightarrow> ([Open module], Inr all_results)
           | Continue results \<Rightarrow> ([Open module], Inr (if only_all then [] else results))))"

subsection \<open>\<open>get_names\<close>\<close>

text \<open>Events of a first step come before the events of what follows it.\<close>

definition after :: "event list \<Rightarrow> 'a outcome \<Rightarrow> 'a outcome" where
  "after tr r = (tr @ fst r, snd r)"

text \<open>
  The loop \<open>for file in modpath.glob("*.py")\<close>; an exception of \<open>get_names_from_file\<close>
  leaves the loop and the function.
\<close>

fun get_names_files ::
  "fsnode \<Rightarrow> path list \<Rightarrow> string \<Rightarrow> string \<Rightarrow> 's \<Rightarrow> bool \<Rightarrow> 's Name list \<Rightarrow>
     's Name list outcome" where
  "get_names_files fs [] modname package_name package_source underlined names =
     ([], Inr names)"
| "get_names_files fs (file # rest) modname package_name package_source underlined names =
     (case get_names_from_file fs file (modname @ ''.'' @ stem file) package_name
             package_source False underlined of
        (tr, Inl e) \<Rightarrow> (tr, Inl e)
      | (tr, Inr found) \<Rightarrow>
          after tr
            (get_names_files fs rest modname package_name package_source underlined
               (names @ found)))"

definition get_names ::
  "fsnode \<Rightarrow> path \<Rightarrow> string \<Rightarrow> string \<Rightarrow> 's \<Rightarrow> bool \<Rightarrow> 's Name list outcome" where
  "get_names fs modpath modname package_name package_source underlined =
     (if is_dir fs modpath then
        (if exists_path fs (modpath @ [''__init__.py'']) then
           (case get_names_from_file fs (modpath @ [''__init__.py'']) modname package_name
                   package_source True False of
              (tr, Inl e) \<Rightarrow> (tr, Inl e)
            | (tr, Inr names) \<Rightarrow>
                if length names > 0 then (tr, Inr names)
                else after tr
                       (get_names_files fs (glob_py fs modpath) modname package_name
                          package_source underlined []))
         else get_names_files fs (glob_py fs modpath) modname package_name package_source
                underlined [])
      else if suffix_of modpath = ''.py'' then
        get_names_from_file fs modpath modname package_name package_source False underlined
      else ([], Inr []))"

subsection \<open>\<open>find_all_names_in_package\<close>\<close>

text \<open>
  Modelled from the spec: the enumeration \<open>PackageType\<close> of \<open>defs.py\<close>, which is not
  part of the sources at hand. The code names \<open>SINGLE_FILE\<close> and \<open>COMPILED\<close>; the
  spec's third layout is the directory package.
\<close>

datatype PackageType = SINGLE_FILE | COMPILED | DIRECTORY_PACKAGE

text \<open>
  What \<open>import_module\<close> does: it raises \<open>ImportError\<close>, or the module's code raises
  something else, or the module is loaded; of a loaded module the model keeps
  \<open>__all__\<close>, if it has one, and the members as \<open>inspect.getmembers\<close> lists them, each
  with the answers of \<open>isclass\<close>, \<open>isfunction\<close> and \<open>isbuiltin\<close>.
\<close>

datatype member_kind = IsClass | IsFunction | IsBuiltin | IsOther

datatype import_outcome =
    ImportError
  | Raises
  | Loaded "string list option" "(string \<times> member_kind) list"

text \<open>
  The helpers of \<open>utils.py\<close> and the runtime are parameters of the model, next to the
  file system.
\<close>

record 's world =
  files :: fsnode
  get_package_name_from_path :: "path \<Rightarrow> (string \<times> PackageType) option"
  get_package_source :: "path \<Rightarrow> 's"
  submodules :: "path \<Rightarrow> path list"
  get_modname_from_path :: "path \<Rightarrow> path \<Rightarrow> string"
  import_module :: "string \<Rightarrow> import_outcome"

text \<open>The loop \<open>for sub in submodules(package_path)\<close>.\<close>

fun select_submodules ::
  "'s world \<Rightarrow> path \<Rightarrow> bool \<Rightarrow> path list \<Rightarrow> (path \<times> string) list \<Rightarrow> (path \<times> string) list" where
  "select_submodules w package_path underlined [] modules = modules"
| "select_submodules w package_path underlined (sub # subs) modules =
     (let modname = get_modname_from_path w sub package_path in
      if underlined \<or> CHR ''_'' \<in> set modname
      then select_submodules w package_path underlined subs modules
      else select_submodules w package_path underlined subs (modules @ [(sub, modname)]))"

text \<open>The loop \<open>for module in modules\<close>.\<close>

fun names_of_modules ::
  "fsnode \<Rightarrow> (path \<times> string) list \<Rightarrow> string \<Rightarrow> 's \<Rightarrow> bool \<Rightarrow> 's Name list \<Rightarrow>
     's Name list outcome" where
  "names_of_modules fs [] package_name package_source underlined result = ([], Inr result)"
| "names_of_modules fs (module # modules) package_name package_source underlined result =
     (case get_names fs (fst module) (snd module) package_name package_source underlined of
        (tr, Inl e) \<Rightarrow> (tr, Inl e)
      | (tr, Inr found) \<Rightarrow>
          after tr
            (names_of_modules fs modules package_name package_source underlined
               (result @ found)))"

definition find_all_names_in_package ::
  "'s world \<Rightarrow> path \<Rightarrow> bool \<Rightarrow> 's option \<Rightarrow> bool \<Rightarrow> 's Name list outcome" where
  "find_all_names_in_package w package_path recursive package_source underlined =
     (case get_package_name_from_path w package_path of
        None \<Rightarrow> ([], Inr [])
      | Some (package_name, package_type) \<Rightarrow>
          (let source = (case package_source of
                           None \<Rightarrow> get_package_source w package_path
                         | Some given \<Rightarrow> given)
           in
             if package_type = SINGLE_FILE then
               names_of_modules (files w) [(package_path, package_name)] package_name
                 source underlined []
             else if package_type = COMPILED then ([], Inr [])
             else if recursive then
               names_of_modules (files w)
                 (select_submodules w package_path underlined (submodules w package_path) [])
                 package_name source underlined []
             else
               names_of_modules (files w) [(package_path, package_name)] package_name
                 source underlined []))"

subsection \<open>\<open>get_names_from_compiled\<close>\<close>

definition banned :: "string list" where
  "banned = [''builtins'', ''python_crun'']"

text \<open>The loop \<open>for name, value in inspect.getmembers(module)\<close>.\<close>

fun member_names ::
  "(string \<times> member_kind) list \<Rightarrow> string \<Rightarrow> 's \<Rightarrow> bool \<Rightarrow> 's Name list \<Rightarrow> 's Name list" where
  "member_names [] package source underlined results = results"
| "member_names ((name, kind) # members) package source underlined results =
     (if underlined \<or> \<not> startswith name ''_'' then
        (if kind = IsClass \<or> kind = IsFunction \<or> kind = IsBuiltin
         then member_names members package source underlined
                (results @ [(name, package, package, source)])
         else member_names members package source underlined results)
      else member_names members package source underlined results)"

text \<open>The loop \<open>for name in module.__all__\<close>.\<close>

fun all_names :: "string list \<Rightarrow> string \<Rightarrow> 's \<Rightarrow> 's Name list \<Rightarrow> 's Name list" where
  "all_names [] package source results = results"
| "all_names (name # names) package source results =
     all_names names package source (results @ [(name, package, package, source)])"

definition get_names_from_compiled ::
  "'s world \<Rightarrow> string \<Rightarrow> 's \<Rightarrow> bool \<Rightarrow> 's Name list outcome" where
  "get_names_from_compiled w package source underlined =
     (if package \<in> set banned \<or> (startswith package ''_'' \<and> \<not> underlined) then ([], Inr [])
      else
        (case import_module w package of
           ImportError \<Rightarrow> ([Import package], Inr [])
         | Raises \<Rightarrow> ([Import package], Inl OtherException)
         | Loaded exported members \<Rightarrow>
             (case exported of
                Some names \<Rightarrow> ([Import package], Inr (all_names names package source []))
              | None \<Rightarrow>
                  ([Import package], Inr (member_names members package source underlined [])))))"

subsection \<open>Notions the statements use\<close>

text \<open>
  A literal list of constants is what \<open>parse_all\<close> accepts; an export-list override is a
  top-level assignment with the name \<open>__all__\<close> among its targets and such a value.
\<close>

fun is_constant :: "expr \<Rightarrow> bool" where
  "is_constant (Constant v) = True"
| "is_constant _ = False"

fun is_literal_list :: "expr \<Rightarrow> bool" where
  "is_literal_list (ListExpr elts) = list_all is_constant elts"
| "is_literal_list _ = False"

fun is_all_override :: "stmt \<Rightarrow> bool" where
  "is_all_override (Assign targets val) =
     (Name ''__all__'' \<in> set targets \<and> is_literal_list val)"
| "is_all_override _ = False"

text \<open>The list literal whose elements are the given string constants.\<close>

definition string_list :: "string list \<Rightarrow> expr" where
  "string_list names = ListExpr (map (\<lambda>n. Constant (CStr n)) names)"



text \<open>The records of the given names in one module.\<close>

definition records :: "string list \<Rightarrow> string \<Rightarrow> string \<Rightarrow> 's \<Rightarrow> 's Name list" where
  "records names modname package package_source =
     map (\<lambda>n. (n, modname, package, package_source)) names"

text \<open>The names a call returned; none when it raised.\<close>

definition returned :: "'a list outcome \<Rightarrow> 'a list" where
  "returned r = (case snd r of Inl e \<Rightarrow> [] | Inr names \<Rightarrow> names)"

definition returns :: "'a outcome \<Rightarrow> bool" where
  "returns r = (case snd r of Inl e \<Rightarrow> False | Inr v \<Rightarrow> True)"

text \<open>
  The names a statement contributes when it is no export-list override: of an
  assignment the \<open>Name\<close> targets, except \<open>__all__\<close> (whose value \<open>parse_all\<close> rejected,
  so that the \<open>append\<close> after it was not reached).
\<close>

fun target_names :: "expr list \<Rightarrow> string list" where
  "target_names [] = []"
| "target_names (Name ident # targets) =
     (if ident = ''__all__'' then target_names targets else ident # target_names targets)"
| "target_names (target # targets) = target_names targets"


subsection \<open>Inputs the statements are tried on\<close>

text \<open>
  The file of the spec's scenarios: \<open>def foo\<close>, \<open>class Bar\<close>, \<open>_hidden = 1\<close>, with and
  without the line \<open>__all__ = ["foo"]\<close>.
\<close>

definition plain_file :: "stmt list" where
  "plain_file =
     [FunctionDef ''foo'', ClassDef ''Bar'', Assign [Name ''_hidden''] (Constant (CNonStr ''1''))]"

definition exporting_file :: "stmt list" where
  "exporting_file = plain_file @ [Assign [Name ''__all__''] (string_list [''foo''])]"

text \<open>A file that assigns \<open>__all__\<close> twice: \<open>__all__ = ["a"]\<close>, then \<open>__all__ = ["b"]\<close>.\<close>

definition two_lists_file :: "stmt list" where
  "two_lists_file =
     [Assign [Name ''__all__''] (string_list [''a'']),
      Assign [Name ''__all__''] (string_list [''b''])]"

definition one_file :: "stmt list \<Rightarrow> fsnode" where
  "one_file body = Dir [(''m.py'', File (Module body))]"

text \<open>
  A package whose initializer exports \<open>api\<close>, beside a module that defines \<open>helper\<close> and
  a file that cannot be opened.
\<close>

definition exporting_package :: fsnode where
  "exporting_package =
     Dir [(''pkg'', Dir
       [(''impl.py'', File (Module [FunctionDef ''helper''])),
        (''__init__.py'', File (Module [Assign [Name ''__all__''] (string_list [''api''])])),
        (''locked.py'', NoPermission)])]"

text \<open>
  A package whose initializer has no export list: it defines \<open>setup\<close> and \<open>_internal\<close>;
  beside it a module, a file with a syntax error, and a file that is no Python source.
\<close>

definition plain_package :: fsnode where
  "plain_package =
     Dir [(''pkg'', Dir
       [(''__init__.py'', File (Module [FunctionDef ''setup'', FunctionDef ''_internal''])),
        (''broken.py'', File (SyntaxError ''invalid syntax'')),
        (''mod.py'', File (Module [ClassDef ''C'', Assign [Name ''x'', Name ''_y''] OtherExpr])),
        (''notes.txt'', NoPermission)])]"


text \<open>A package with a file that cannot be opened before a module that defines \<open>f\<close>.\<close>

definition locked_package :: fsnode where
  "locked_package =
     Dir [(''pkg'', Dir
       [(''locked.py'', NoPermission),
        (''a.py'', File (Module [FunctionDef ''f'']))])]"



text \<open>
  A world around a file system: every path is classified as the package \<open>pkg\<close> of the
  given type, with provenance 0, its only submodule is the package directory itself
  under the dotted name \<open>pkg\<close>, and every import has the given outcome.
\<close>

definition world_of :: "fsnode \<Rightarrow> PackageType \<Rightarrow> import_outcome \<Rightarrow> int world" where
  "world_of fs package_type imported =
     \<lparr>files = fs,
      get_package_name_from_path = (\<lambda>p. Some (''pkg'', package_type)),
      get_package_source = (\<lambda>p. 0),
      submodules = (\<lambda>p. [p]),
      get_modname_from_path = (\<lambda>sub p. ''pkg''),
      import_module = (\<lambda>m. imported)\<rparr>"

section \<open>Properties\<close>

subsection \<open>The export list in a source file\<close>

lemma parse_all_items_strings:
  "parse_all_items (map (\<lambda>n. Constant (CStr n)) names) modname package src acc =
     Some (acc @ records names modname package src)"
  by (induction names arbitrary: acc) (simp_all add: records_def)

lemma parse_all_string_list:
  "parse_all (string_list names) modname package src = Some (records names modname package src)"
  by (simp add: string_list_def parse_all_items_strings)

lemma parse_all_items_None:
  "parse_all_items elts modname package src acc = None \<longleftrightarrow> \<not> list_all is_constant elts"
  by (induction elts arbitrary: acc) (auto split: expr.splits)

lemma parse_all_None:
  "parse_all val modname package src = None \<longleftrightarrow> \<not> is_literal_list val"
  by (cases val) (simp_all add: parse_all_items_None)

lemma parse_all_Some:
  "parse_all val modname package src = Some r \<Longrightarrow> is_literal_list val"
  using parse_all_None[of val modname package src] by auto

lemma assign_targets_Return:
  "Name ''__all__'' \<in> set targets \<Longrightarrow> parse_all val modname package src = Some r \<Longrightarrow>
     assign_targets targets val modname package src node_names = Return r"
  by (induction targets arbitrary: node_names) (auto split: expr.splits)

text \<open>
  Without an override, the loop over the targets collects the \<open>Name\<close> targets other
  than \<open>__all__\<close>.
\<close>

lemma assign_targets_Continue:
  "\<not> (Name ''__all__'' \<in> set targets \<and> is_literal_list val) \<Longrightarrow>
     assign_targets targets val modname package src node_names =
       Continue (node_names @ target_names targets)"
proof (induction targets arbitrary: node_names)
  case Nil
  then show ?case by simp
next
  case (Cons target targets)
  show ?case
  proof (cases target)
    case (Name ident)
    show ?thesis
    proof (cases "ident = ''__all__''")
      case True
      with Cons.prems Name have "\<not> is_literal_list val" by simp
      then have "parse_all val modname package src = None" by (simp add: parse_all_None)
      moreover have "\<not> (Name ''__all__'' \<in> set targets \<and> is_literal_list val)"
        using \<open>\<not> is_literal_list val\<close> by simp
      ultimately show ?thesis using Name True Cons.IH by simp
    next
      case False
      with Cons.prems Name have "\<not> (Name ''__all__'' \<in> set targets \<and> is_literal_list val)"
        by auto
      then show ?thesis using Name False Cons.IH by simp
    qed
  qed (use Cons in auto)
qed



text \<open>Statements before the first override do not end the walk.\<close>

lemma walk_skip:
  assumes "\<not> list_ex is_all_override pre"
  shows "\<exists>results'. walk (pre @ rest) modname package src underlined results =
       walk rest modname package src underlined results'"
  using assms
proof (induction pre arbitrary: results)
  case Nil
  then show ?case by auto
next
  case (Cons node pre)
  show ?case
  proof (cases node)
    case (Assign targets val)
    with Cons.prems have "\<not> (Name ''__all__'' \<in> set targets \<and> is_literal_list val)" by simp
    then have "assign_targets targets val modname package src [] =
        Continue (target_names targets)"
      using assign_targets_Continue[of targets val modname package src "[]"] by simp
    with Assign Cons show ?thesis by simp
  qed (use Cons in simp_all)
qed

lemma open_one_file: "open_file (one_file body) [''m.py''] = Some (Module body)"
  by (simp add: open_file_def one_file_def)

text \<open>
  C1, as amended. When a file parses and has, among its top-level statements, an
  assignment with the name \<open>__all__\<close> among its targets and a literal list of string
  constants as its value, and no statement before it is such an override (with any
  literal list of constants), then \<open>get_names_from_file\<close> returns exactly the records
  of the names of that list, in order, each with the given module name, package name
  and provenance, whatever else the file declares before or after it, and whatever
  \<open>only_all\<close> and \<open>underlined\<close> are. The only event is the opening of the file.
\<close>

theorem first_export_list_is_authoritative:
  assumes "open_file fs module = Some (Module (pre @ Assign targets (string_list names) # post))"
    and "Name ''__all__'' \<in> set targets"
    and "\<not> list_ex is_all_override pre"
  shows "get_names_from_file fs module modname package src only_all underlined =
           ([Open module], Inr (records names modname package src))"
proof -
  obtain results' where
    "walk (pre @ Assign targets (string_list names) # post) modname package src underlined [] =
       walk (Assign targets (string_list names) # post) modname package src underlined results'"
    using walk_skip[OF assms(3), of "Assign targets (string_list names) # post" modname package
        src underlined "[]"] by blast
  moreover have "assign_targets targets (string_list names) modname package src [] =
      Return (records names modname package src)"
    using assms(2) by (rule assign_targets_Return) (rule parse_all_string_list)
  ultimately show ?thesis using assms(1) by (simp add: get_names_from_file_def)
qed

text \<open>
  The theorem at the spec's scenario file, where \<open>__all__ = ["foo"]\<close> follows \<open>def foo\<close>,
  \<open>class Bar\<close> and \<open>_hidden = 1\<close>, with \<open>underlined\<close> set.
\<close>

theorem first_export_list_is_authoritative_witness:
  "open_file (one_file exporting_file) [''m.py''] =
     Some (Module (plain_file @ Assign [Name ''__all__''] (string_list [''foo'']) # []))
   \<and> Name ''__all__'' \<in> set [Name ''__all__'']
   \<and> \<not> list_ex is_all_override plain_file
   \<and> get_names_from_file (one_file exporting_file) [''m.py''] ''m'' ''pkg'' (0::int) False True =
       ([Open [''m.py'']], Inr [(''foo'', ''m'', ''pkg'', 0)])"
proof -
  have h1: "open_file (one_file exporting_file) [''m.py''] =
     Some (Module (plain_file @ Assign [Name ''__all__''] (string_list [''foo'']) # []))"
    by (simp add: open_one_file exporting_file_def)
  have h2: "Name ''__all__'' \<in> set [Name ''__all__'']" by simp
  have h3: "\<not> list_ex is_all_override plain_file" by (simp add: plain_file_def)
  show ?thesis
    using h1 h2 h3 first_export_list_is_authoritative[OF h1 h2 h3, of "''m''" "''pkg''" 0 False True]
    by (simp add: records_def)
qed

text \<open>
  C1 as stated fails where a file assigns \<open>__all__\<close> twice: the file includes the
  assignment \<open>__all__ = ["b"]\<close>, and the names returned are not those of that list (they
  are those of the earlier \<open>__all__ = ["a"]\<close>, at which the walk returns).
\<close>

theorem later_export_list_counterexample:
  "open_file (one_file two_lists_file) [''m.py''] = Some (Module two_lists_file)
   \<and> Assign [Name ''__all__''] (string_list [''b'']) \<in> set two_lists_file
   \<and> returned (get_names_from_file (one_file two_lists_file) [''m.py''] ''m'' ''pkg'' (0::int)
        False False) \<noteq> records [''b''] ''m'' ''pkg'' 0"
  by (simp add: open_one_file get_names_from_file_def two_lists_file_def string_list_def
      returned_def records_def)

subsection \<open>The privacy test in a source file\<close>








subsection \<open>Compiled modules\<close>

text \<open>
  C9. For a module identifier of the deny-list, and for one that starts with an
  underscore while \<open>underlined\<close> is false, \<open>get_names_from_compiled\<close> returns the
  empty list, and its trace is empty: no import was attempted.
\<close>

theorem denied_module_is_not_loaded:
  assumes "package \<in> set banned \<or> (startswith package ''_'' \<and> \<not> underlined)"
  shows "get_names_from_compiled w package source underlined = ([], Inr [])"
  using assms by (simp add: get_names_from_compiled_def)

text \<open>
  The theorem at \<open>builtins\<close> (deny-listed, with \<open>underlined\<close> set) and at \<open>_socket\<close>
  (underscore-prefixed, without it), in worlds where the import would succeed.
\<close>

theorem denied_module_is_not_loaded_witness:
  "''builtins'' \<in> set banned
   \<and> get_names_from_compiled (world_of plain_package COMPILED (Loaded None [(''len'', IsBuiltin)]))
       ''builtins'' 0 True = ([], Inr [])
   \<and> startswith ''_socket'' ''_''
   \<and> get_names_from_compiled (world_of plain_package COMPILED (Loaded None [(''socket'', IsClass)]))
       ''_socket'' 0 False = ([], Inr [])"
proof -
  have h1: "''builtins'' \<in> set banned" by (simp add: banned_def)
  have h2: "startswith ''_socket'' ''_''" by (simp add: startswith_def)
  have a: "get_names_from_compiled
      (world_of plain_package COMPILED (Loaded None [(''len'', IsBuiltin)])) ''builtins'' 0 True
      = ([], Inr [])"
    by (rule denied_module_is_not_loaded) (simp add: h1)
  have b: "get_names_from_compiled
      (world_of plain_package COMPILED (Loaded None [(''socket'', IsClass)])) ''_socket'' 0 False
      = ([], Inr [])"
    by (rule denied_module_is_not_loaded) (simp add: h2)
  show ?thesis using h1 h2 a b by blast
qed

text \<open>
  C8, as amended. For a module identifier that is neither deny-listed nor skipped for
  privacy, when \<open>import_module\<close> raises \<open>ImportError\<close>, \<open>get_names_from_compiled\<close>
  returns the empty list after the one import attempt; nothing is raised.
\<close>

theorem import_error_gives_no_names:
  assumes "package \<notin> set banned" and "\<not> (startswith package ''_'' \<and> \<not> underlined)"
    and "import_module w package = ImportError"
  shows "get_names_from_compiled w package source underlined = ([Import package], Inr [])"
  using assms by (simp add: get_names_from_compiled_def)

text \<open>The theorem at a module that cannot be found.\<close>

theorem import_error_gives_no_names_witness:
  "''missing'' \<notin> set banned
   \<and> \<not> (startswith ''missing'' ''_'' \<and> \<not> False)
   \<and> import_module (world_of plain_package COMPILED ImportError) ''missing'' = ImportError
   \<and> get_names_from_compiled (world_of plain_package COMPILED ImportError) ''missing'' 0 False
       = ([Import ''missing''], Inr [])"
proof -
  have h1: "''missing'' \<notin> set banned" by (simp add: banned_def)
  have h2: "\<not> (startswith ''missing'' ''_'' \<and> \<not> False)" by (simp add: startswith_def)
  have h3: "import_module (world_of plain_package COMPILED ImportError) ''missing'' = ImportError"
    by (simp add: world_of_def)
  show ?thesis
    using h1 h2 h3 import_error_gives_no_names[OF h1 h2 h3, of 0] by simp
qed

text \<open>
  C8 as stated fails where the import fails with something other than \<open>ImportError\<close>:
  only \<open>ImportError\<close> is caught, and the exception reaches the caller.
\<close>

theorem other_exception_counterexample:
  "''crashing'' \<notin> set banned
   \<and> \<not> startswith ''crashing'' ''_''
   \<and> import_module (world_of plain_package COMPILED Raises) ''crashing'' = Raises
   \<and> snd (get_names_from_compiled (world_of plain_package COMPILED Raises) ''crashing'' 0 False)
       = Inl OtherException"
  by (simp add: banned_def startswith_def world_of_def get_names_from_compiled_def)

subsection \<open>Directories\<close>

lemma after_pair [simp]: "after tr (tr', r) = (tr @ tr', r)"
  by (simp add: after_def)

lemma snd_after [simp]: "snd (after tr r) = snd r"
  by (simp add: after_def)

lemma fst_after [simp]: "fst (after tr r) = tr @ fst r"
  by (simp add: after_def)

lemma get_names_from_file_trace:
  assumes "snd (get_names_from_file fs module modname package src only_all underlined) = Inr names"
    and "names \<noteq> []"
  shows "fst (get_names_from_file fs module modname package src only_all underlined) = [Open module]"
  using assms
  by (auto simp: get_names_from_file_def split: option.splits source.splits flow.splits)

text \<open>
  C4. For a directory whose initializer file exists, when the extraction from the
  initializer with \<open>only_all\<close> set returns a non-empty list, \<open>get_names\<close> returns
  exactly that list, and the only event of the call is the opening of the initializer:
  no other file of the directory is opened, whatever the directory holds.
\<close>

theorem initializer_export_list_supersedes:
  assumes "is_dir fs modpath"
    and "exists_path fs (modpath @ [''__init__.py''])"
    and "snd (get_names_from_file fs (modpath @ [''__init__.py'']) modname package_name src
               True False) = Inr names"
    and "names \<noteq> []"
  shows "get_names fs modpath modname package_name src underlined =
           ([Open (modpath @ [''__init__.py''])], Inr names)"
proof -
  have "fst (get_names_from_file fs (modpath @ [''__init__.py'']) modname package_name src
               True False) = [Open (modpath @ [''__init__.py''])]"
    using assms(3,4) by (rule get_names_from_file_trace)
  with assms(3) have "get_names_from_file fs (modpath @ [''__init__.py'']) modname package_name
      src True False = ([Open (modpath @ [''__init__.py''])], Inr names)"
    by (simp add: prod_eq_iff)
  with assms(1,2,4) show ?thesis by (simp add: get_names_def)
qed

text \<open>
  The theorem at a package whose initializer exports \<open>api\<close>, beside a module that
  defines \<open>helper\<close> and a file that cannot be opened.
\<close>

theorem initializer_export_list_supersedes_witness:
  "is_dir exporting_package [''pkg'']
   \<and> exists_path exporting_package ([''pkg''] @ [''__init__.py''])
   \<and> snd (get_names_from_file exporting_package ([''pkg''] @ [''__init__.py'']) ''pkg'' ''pkg''
            (0::int) True False) = Inr [(''api'', ''pkg'', ''pkg'', 0)]
   \<and> get_names exporting_package [''pkg''] ''pkg'' ''pkg'' (0::int) True =
        ([Open ([''pkg''] @ [''__init__.py''])], Inr [(''api'', ''pkg'', ''pkg'', 0)])"
proof -
  have h1: "is_dir exporting_package [''pkg'']"
    by (simp add: is_dir_def exporting_package_def)
  have h2: "exists_path exporting_package ([''pkg''] @ [''__init__.py''])"
    by (simp add: exists_path_def exporting_package_def)
  have h3: "snd (get_names_from_file exporting_package ([''pkg''] @ [''__init__.py'']) ''pkg'' ''pkg''
            (0::int) True False) = Inr [(''api'', ''pkg'', ''pkg'', 0)]"
    by (simp add: get_names_from_file_def open_file_def exporting_package_def string_list_def)
  have h4: "[(''api'', ''pkg'', ''pkg'', 0::int)] \<noteq> []" by simp
  show ?thesis
    using h1 h2 h3 initializer_export_list_supersedes[OF h1 h2 h3 h4, of True] by blast
qed


text \<open>When a file raises, the loop raises: the condition of the lemma before is needed.\<close>

lemma get_names_files_raises:
  assumes "list_ex (\<lambda>p. \<not> returns (get_names_from_file fs p (modname @ ''.'' @ stem p)
             package_name src False underlined)) paths"
  shows "\<not> returns (get_names_files fs paths modname package_name src underlined names)"
  using assms
proof (induction paths arbitrary: names)
  case Nil
  then show ?case by simp
next
  case (Cons q rest)
  obtain tr r where g: "get_names_from_file fs q (modname @ ''.'' @ stem q) package_name
      src False underlined = (tr, r)" by (cases "get_names_from_file fs q
        (modname @ ''.'' @ stem q) package_name src False underlined")
  show ?case
  proof (cases r)
    case (Inl e)
    with g show ?thesis by (simp add: returns_def)
  next
    case (Inr found)
    with g Cons.prems have "list_ex (\<lambda>p. \<not> returns (get_names_from_file fs p
        (modname @ ''.'' @ stem p) package_name src False underlined)) rest"
      by (simp add: returns_def)
    then have "\<not> returns (get_names_files fs rest modname package_name src underlined
        (names @ found))" by (rule Cons.IH)
    with g Inr show ?thesis by (simp add: returns_def)
  qed
qed





subsection \<open>Files that cannot be parsed or opened\<close>

lemma open_file_not_dir: "open_file fs p = Some s \<Longrightarrow> \<not> is_dir fs p"
  by (auto simp: open_file_def is_dir_def split: option.splits fsnode.splits)

text \<open>
  C7, as amended. For a file that can be opened and whose parsing raises \<open>SyntaxError\<close>,
  \<open>get_names_from_file\<close> prints the error and returns the empty list, and both loops
  that call it go on with the remaining files or modules, with the names collected so
  far unchanged.
\<close>

theorem syntax_error_is_reported_and_skipped:
  assumes "open_file fs p = Some (SyntaxError msg)"
  shows "get_names_from_file fs p modname package src only_all underlined =
           ([Open p, Print msg], Inr [])
       \<and> get_names_files fs (p # rest) dirname package src underlined names =
           after [Open p, Print msg]
             (get_names_files fs rest dirname package src underlined names)
       \<and> names_of_modules fs ((p, modname) # modules) package src underlined result =
           after (if suffix_of p = ''.py'' then [Open p, Print msg] else [])
             (names_of_modules fs modules package src underlined result)"
proof -
  have a: "\<And>modname only_all. get_names_from_file fs p modname package src only_all underlined =
           ([Open p, Print msg], Inr [])"
    using assms by (simp add: get_names_from_file_def)
  have "\<not> is_dir fs p" using assms by (rule open_file_not_dir)
  then have b: "get_names fs p modname package src underlined =
      (if suffix_of p = ''.py'' then [Open p, Print msg] else [], Inr [])"
    by (simp add: get_names_def a)
  show ?thesis by (simp add: a b)
qed

text \<open>The theorem at the file with a syntax error, followed by a module in the loop.\<close>

theorem syntax_error_is_reported_and_skipped_witness:
  "open_file plain_package [''pkg'', ''broken.py''] = Some (SyntaxError ''invalid syntax'')
   \<and> get_names_from_file plain_package [''pkg'', ''broken.py''] ''pkg.broken'' ''pkg'' (0::int)
        False False = ([Open [''pkg'', ''broken.py''], Print ''invalid syntax''], Inr [])
   \<and> get_names_files plain_package [[''pkg'', ''broken.py''], [''pkg'', ''mod.py'']] ''pkg''
        ''pkg'' (0::int) False [] =
        ([Open [''pkg'', ''broken.py''], Print ''invalid syntax'', Open [''pkg'', ''mod.py'']],
         Inr [(''C'', ''pkg.mod'', ''pkg'', 0), (''x'', ''pkg.mod'', ''pkg'', 0)])"
proof -
  have h: "open_file plain_package [''pkg'', ''broken.py''] = Some (SyntaxError ''invalid syntax'')"
    by (simp add: open_file_def plain_package_def)
  note t = syntax_error_is_reported_and_skipped[OF h, of "''pkg.broken''" "''pkg''" 0 False False
      "[[''pkg'', ''mod.py'']]" "''pkg''" "[]"]
  have m: "get_names_files plain_package [[''pkg'', ''mod.py'']] ''pkg'' ''pkg'' (0::int) False [] =
      ([Open [''pkg'', ''mod.py'']],
       Inr [(''C'', ''pkg.mod'', ''pkg'', 0), (''x'', ''pkg.mod'', ''pkg'', 0)])"
    by (simp add: get_names_from_file_def open_file_def plain_package_def
        startswith_def stem_def path_name_def rfind_def)
  from t have a: "get_names_from_file plain_package [''pkg'', ''broken.py''] ''pkg.broken'' ''pkg''
        (0::int) False False = ([Open [''pkg'', ''broken.py''], Print ''invalid syntax''], Inr [])"
    by (rule conjunct1)
  from t have b: "get_names_files plain_package [[''pkg'', ''broken.py''], [''pkg'', ''mod.py'']]
        ''pkg'' ''pkg'' (0::int) False [] =
        after [Open [''pkg'', ''broken.py''], Print ''invalid syntax'']
          (get_names_files plain_package [[''pkg'', ''mod.py'']] ''pkg'' ''pkg'' 0 False [])"
    by blast
  have c: "get_names_files plain_package [[''pkg'', ''broken.py''], [''pkg'', ''mod.py'']]
        ''pkg'' ''pkg'' (0::int) False [] =
        ([Open [''pkg'', ''broken.py''], Print ''invalid syntax'', Open [''pkg'', ''mod.py'']],
         Inr [(''C'', ''pkg.mod'', ''pkg'', 0), (''x'', ''pkg.mod'', ''pkg'', 0)])"
    unfolding b m by simp
  show ?thesis using h a c by blast
qed

text \<open>
  C7 as stated fails for a file that cannot be opened: \<open>open\<close> is outside the \<open>try\<close>
  block, the \<open>OSError\<close> leaves \<open>get_names_from_file\<close>, and the scan of the directory
  ends with it, before the module after the file is read.
\<close>

theorem unreadable_file_counterexample:
  "lookup locked_package [''pkg'', ''locked.py''] = Some NoPermission
   \<and> snd (get_names_from_file locked_package [''pkg'', ''locked.py''] ''pkg.locked'' ''pkg''
            (0::int) False False) = Inl OSError
   \<and> snd (get_names locked_package [''pkg''] ''pkg'' ''pkg'' (0::int) False) = Inl OSError"
  by (simp add: locked_package_def get_names_from_file_def open_file_def get_names_def
      is_dir_def exists_path_def glob_py_def endswith_def)

subsection \<open>The initializer in the scan of its directory\<close>









subsection \<open>Packages\<close>

text \<open>
  The test \<open>underlined or modname.__contains__("_")\<close> skips a submodule; with
  \<open>underlined\<close> set it skips every one, and without it a submodule whose dotted name has
  an underscore anywhere.
\<close>

lemma select_submodules_underlined:
  "select_submodules w package_path True subs modules = modules"
  by (induction subs arbitrary: modules) simp_all

lemma underscore_anywhere_drops_submodule:
  "CHR ''_'' \<in> set (get_modname_from_path w sub package_path) \<Longrightarrow>
     select_submodules w package_path underlined (sub # subs) modules =
       select_submodules w package_path underlined subs modules"
  by simp

text \<open>
  C2 does not hold of the code. In the recursive enumeration of a directory package
  with \<open>underlined\<close> set, no submodule is kept and \<open>find_all_names_in_package\<close> returns
  the empty list without opening a file, whatever the dotted names are.
\<close>

theorem underlined_drops_every_submodule:
  assumes "get_package_name_from_path w package_path = Some (package_name, DIRECTORY_PACKAGE)"
  shows "select_submodules w package_path True (submodules w package_path) [] = []
       \<and> find_all_names_in_package w package_path True package_source True = ([], Inr [])"
  using assms by (simp add: find_all_names_in_package_def select_submodules_underlined)

text \<open>
  The theorem at a package whose only submodule has the dotted name \<open>pkg\<close>, with no
  underscore in it: with \<open>underlined\<close> set nothing is returned, without it the names of
  the package are.
\<close>

theorem underlined_drops_every_submodule_witness:
  "get_package_name_from_path (world_of plain_package DIRECTORY_PACKAGE ImportError) [''pkg'']
     = Some (''pkg'', DIRECTORY_PACKAGE)
   \<and> submodules (world_of plain_package DIRECTORY_PACKAGE ImportError) [''pkg''] = [[''pkg'']]
   \<and> get_modname_from_path (world_of plain_package DIRECTORY_PACKAGE ImportError) [''pkg'']
        [''pkg''] = ''pkg''
   \<and> CHR ''_'' \<notin> set ''pkg''
   \<and> find_all_names_in_package (world_of plain_package DIRECTORY_PACKAGE ImportError) [''pkg'']
        True None True = ([], Inr [])
   \<and> snd (find_all_names_in_package (world_of plain_package DIRECTORY_PACKAGE ImportError)
        [''pkg''] True None False) =
        Inr [(''setup'', ''pkg.__init__'', ''pkg'', 0), (''C'', ''pkg.mod'', ''pkg'', 0),
             (''x'', ''pkg.mod'', ''pkg'', 0)]"
proof -
  let ?w = "world_of plain_package DIRECTORY_PACKAGE ImportError"
  have h: "get_package_name_from_path ?w [''pkg''] = Some (''pkg'', DIRECTORY_PACKAGE)"
    by (simp add: world_of_def)
  from underlined_drops_every_submodule[OF h, of None]
  have a: "find_all_names_in_package ?w [''pkg''] True None True = ([], Inr [])"
    by (rule conjunct2)
  have b: "snd (find_all_names_in_package ?w [''pkg''] True None False) =
        Inr [(''setup'', ''pkg.__init__'', ''pkg'', 0), (''C'', ''pkg.mod'', ''pkg'', 0),
             (''x'', ''pkg.mod'', ''pkg'', 0)]"
    by (simp add: find_all_names_in_package_def world_of_def Let_def get_names_def is_dir_def
        exists_path_def glob_py_def endswith_def get_names_from_file_def open_file_def
        plain_package_def startswith_def stem_def path_name_def rfind_def)
  show ?thesis using h a b by (simp add: world_of_def)
qed

text \<open>
  C3, as amended. For a package root classified as compiled,
  \<open>find_all_names_in_package\<close> returns the empty list at once: its trace is empty, so no
  file is opened and no module is imported.
\<close>

theorem compiled_package_yields_nothing:
  assumes "get_package_name_from_path w package_path = Some (package_name, COMPILED)"
  shows "find_all_names_in_package w package_path recursive package_source underlined =
           ([], Inr [])"
  using assms by (simp add: find_all_names_in_package_def)

text \<open>The theorem at a compiled package whose import would yield the builtin \<open>run\<close>.\<close>

theorem compiled_package_yields_nothing_witness:
  "get_package_name_from_path
     (world_of plain_package COMPILED (Loaded None [(''run'', IsBuiltin)])) [''pkg'']
     = Some (''pkg'', COMPILED)
   \<and> find_all_names_in_package
       (world_of plain_package COMPILED (Loaded None [(''run'', IsBuiltin)])) [''pkg'']
       True None False = ([], Inr [])"
proof -
  let ?w = "world_of plain_package COMPILED (Loaded None [(''run'', IsBuiltin)])"
  have h: "get_package_name_from_path ?w [''pkg''] = Some (''pkg'', COMPILED)"
    by (simp add: world_of_def)
  show ?thesis using h compiled_package_yields_nothing[OF h, of True None False] by blast
qed

text \<open>
  C3 as stated fails: for that compiled package \<open>get_names_from_compiled\<close> imports the
  module and returns \<open>run\<close>, and \<open>find_all_names_in_package\<close> does not return this
  result.
\<close>

theorem compiled_package_not_delegated_counterexample:
  "get_package_name_from_path
     (world_of plain_package COMPILED (Loaded None [(''run'', IsBuiltin)])) [''pkg'']
     = Some (''pkg'', COMPILED)
   \<and> get_names_from_compiled
       (world_of plain_package COMPILED (Loaded None [(''run'', IsBuiltin)])) ''pkg'' 0 False
     = ([Import ''pkg''], Inr [(''run'', ''pkg'', ''pkg'', 0)])
   \<and> find_all_names_in_package
       (world_of plain_package COMPILED (Loaded None [(''run'', IsBuiltin)])) [''pkg'']
       True (Some 0) False
     \<noteq> get_names_from_compiled
       (world_of plain_package COMPILED (Loaded None [(''run'', IsBuiltin)])) ''pkg'' 0 False"
  by (simp add: world_of_def find_all_names_in_package_def get_names_from_compiled_def
      banned_def startswith_def)

end
